theory Spec2Isabelle
  imports Complex_Main
begin

section \<open>Python values, requests and responses\<close>

text \<open>
  The object \<^verbatim>\<open>request.get_json()\<close> returns: any JSON document, as the Python object
  the parser builds for it. A float is given by the number it denotes; only its being zero
  is ever inspected. A dict is the list of its items (keys are unique after parsing).
\<close>

datatype pyval =
    PNone
  | PBool bool
  | PInt int
  | PFloat real
  | PStr string
  | PList "pyval list"
  | PDict "(string \<times> pyval) list"

text \<open>Python's truth value, as \<^verbatim>\<open>not x\<close> and \<^verbatim>\<open>x and y\<close> test it.\<close>

fun truthy :: "pyval \<Rightarrow> bool" where
  "truthy PNone = False"
| "truthy (PBool b) = b"
| "truthy (PInt n) = (n \<noteq> 0)"
| "truthy (PFloat x) = (x \<noteq> 0)"
| "truthy (PStr s) = (s \<noteq> [])"
| "truthy (PList xs) = (xs \<noteq> [])"
| "truthy (PDict kvs) = (kvs \<noteq> [])"

text \<open>
  Exceptions. \<open>driver_error\<close> collects what psycopg2 raises apart from
  \<^verbatim>\<open>psycopg2.IntegrityError\<close>: the latter stands for a violated constraint of the table
  and is raised by the constraint checks below only. \<open>KeyboardInterrupt\<close> is the one
  exception here that is not a subclass of \<^verbatim>\<open>Exception\<close>.
\<close>

datatype driver_error =
    OperationalError
  | InterfaceError
  | ProgrammingError
  | DataError
  | InternalError
  | ValueError
  | TypeError

datatype exc =
    IntegrityError
  | DriverError driver_error
  | AttributeError
  | BadRequest
  | KeyboardInterrupt

fun is_Exception :: "exc \<Rightarrow> bool" where
  "is_Exception KeyboardInterrupt = False"
| "is_Exception _ = True"

fun is_IntegrityError :: "exc \<Rightarrow> bool" where
  "is_IntegrityError IntegrityError = True"
| "is_IntegrityError _ = False"

text \<open>
  \<^verbatim>\<open>data.get(key)\<close>: the value under the key, \<^verbatim>\<open>None\<close> for a missing key; an object
  that is not a dict has no attribute \<^verbatim>\<open>get\<close>.
\<close>

fun py_get :: "pyval \<Rightarrow> string \<Rightarrow> exc + pyval" where
  "py_get (PDict kvs) k = Inr (case map_of kvs k of None \<Rightarrow> PNone | Some v \<Rightarrow> v)"
| "py_get _ k = Inl AttributeError"

text \<open>
  What a handler reads of a request: the \<^verbatim>\<open>X-API-Secret\<close> header, whether the content
  type is JSON, and the parsed body (\<open>None\<close> when the body does not parse, in which case
  \<^verbatim>\<open>get_json\<close> raises).
\<close>

record request =
  x_api_secret :: "string option"
  is_json :: bool
  json :: "pyval option"

definition get_json :: "request \<Rightarrow> exc + pyval" where
  "get_json req = (case json req of None \<Rightarrow> Inl BadRequest | Some v \<Rightarrow> Inr v)"

record config =
  DATABASE_URL :: "string option"
  API_SECRET :: "string option"

text \<open>
  Columns are SQL identifiers. A response is the dict given to \<^verbatim>\<open>jsonify\<close>, in the
  order the source writes its items, and the status code.
\<close>

datatype column = Col_id | Col_username | Col_userId

datatype cell = CInt int | CText string

datatype rval =
    RBool bool
  | RStr string
  | RInt int
  | RRows "(column \<times> cell) list list"

type_synonym response = "(string \<times> rval) list \<times> nat"

section \<open>The database\<close>

text \<open>
  Table \<^verbatim>\<open>feedback(id SERIAL PRIMARY KEY, username TEXT NOT NULL, userId BIGINT UNIQUE NOT NULL)\<close>.
\<close>

record row =
  rid :: int
  username :: string
  userId :: int

text \<open>
  The transactional part of the server: the table (\<open>None\<close> while the relation does not
  exist) and the index \<^verbatim>\<open>idx_userId\<close>.
\<close>

record database =
  feedback :: "row list option"
  idx_userId :: bool

datatype call = Connect | Execute | Commit | Rollback | Close

datatype level = INFO | WARNING | ERROR

text \<open>
  \<open>stored\<close> is the committed database; \<open>feedback_id_seq\<close> the last value the sequence
  behind \<^verbatim>\<open>SERIAL\<close> has handed out (a sequence is not rolled back); \<open>session\<close> the
  database as the open connection sees it, \<open>None\<close> when no connection is open;
  \<open>calls\<close> the driver calls made so far; \<open>logged\<close> the records given to the logger.
\<close>

record world =
  stored :: database
  feedback_id_seq :: int
  session :: "database option"
  calls :: "call list"
  logged :: "(level \<times> string) list"

text \<open>
  The points where the server or the network can fail whatever the table holds (no
  server, a lost connection, no disk space, an exhausted sequence), and the environment
  of one request: the failure, if any, at each point.
\<close>

datatype op =
    Op_connect
  | Op_create_table
  | Op_create_index
  | Op_insert
  | Op_count
  | Op_list
  | Op_commit
  | Op_rollback

type_synonym environment = "op \<Rightarrow> driver_error option"

text \<open>
  How the driver and the server turn a Python object into a value of a \<^verbatim>\<open>TEXT\<close> or a
  \<^verbatim>\<open>BIGINT\<close> column, or refuse it. This is the storage engine's business and a
  parameter here.
\<close>

record engine =
  to_text :: "pyval \<Rightarrow> driver_error + string"
  to_bigint :: "pyval \<Rightarrow> driver_error + int"

definition called :: "call \<Rightarrow> world \<Rightarrow> world" where
  "called c w = w\<lparr>calls := calls w @ [c]\<rparr>"

definition logger :: "level \<Rightarrow> string \<Rightarrow> world \<Rightarrow> world" where
  "logger l m w = w\<lparr>logged := logged w @ [(l, m)]\<rparr>"

subsection \<open>The connection\<close>

definition connect :: "config \<Rightarrow> environment \<Rightarrow> world \<Rightarrow> (exc + unit) \<times> world" where
  "connect cfg env w =
     (case DATABASE_URL cfg of
        None \<Rightarrow> (Inl (DriverError TypeError), called Connect w)
      | Some url \<Rightarrow>
          (case env Op_connect of
             Some f \<Rightarrow> (Inl (DriverError f), called Connect w)
           | None \<Rightarrow> (Inr (), (called Connect w)\<lparr>session := Some (stored w)\<rparr>)))"

definition commit :: "environment \<Rightarrow> world \<Rightarrow> (exc + unit) \<times> world" where
  "commit env w =
     (case env Op_commit of
        Some f \<Rightarrow> (Inl (DriverError f), called Commit w)
      | None \<Rightarrow>
          (case session w of
             None \<Rightarrow> (Inl (DriverError InterfaceError), called Commit w)
           | Some d \<Rightarrow> (Inr (), (called Commit w)\<lparr>stored := d\<rparr>)))"

definition rollback :: "environment \<Rightarrow> world \<Rightarrow> (exc + unit) \<times> world" where
  "rollback env w =
     (case env Op_rollback of
        Some f \<Rightarrow> (Inl (DriverError f), called Rollback w)
      | None \<Rightarrow>
          (case session w of
             None \<Rightarrow> (Inl (DriverError InterfaceError), called Rollback w)
           | Some d \<Rightarrow> (Inr (), (called Rollback w)\<lparr>session := Some (stored w)\<rparr>)))"

text \<open>Closing drops whatever the connection has not committed.\<close>

definition close :: "world \<Rightarrow> world" where
  "close w = (called Close w)\<lparr>session := None\<rparr>"

text \<open>
  \<^verbatim>\<open>except Exception as e: conn.rollback(); raise e\<close> and then \<^verbatim>\<open>finally: conn.close()\<close>.
  An exception of \<^verbatim>\<open>rollback\<close> itself replaces \<open>e\<close>; the connection is closed all the same.
\<close>

definition get_db_except :: "environment \<Rightarrow> exc \<Rightarrow> world \<Rightarrow> (exc + 'a) \<times> world" where
  "get_db_except env e w =
     (if is_Exception e then
        (case rollback env w of
           (Inr u, w') \<Rightarrow> (Inl e, close w')
         | (Inl e', w') \<Rightarrow> (Inl e', close w'))
      else (Inl e, close w))"

text \<open>
  The context manager \<^verbatim>\<open>get_db\<close> around a body. \<^verbatim>\<open>connect\<close> stands before the
  \<^verbatim>\<open>try\<close>: when it raises there is no connection to close. \<^verbatim>\<open>commit\<close> stands inside it.
\<close>

definition get_db ::
  "config \<Rightarrow> environment \<Rightarrow> (world \<Rightarrow> (exc + 'a) \<times> world) \<Rightarrow> world \<Rightarrow> (exc + 'a) \<times> world" where
  "get_db cfg env body w =
     (case connect cfg env w of
        (Inl e, w1) \<Rightarrow> (Inl e, w1)
      | (Inr u, w1) \<Rightarrow>
          (case body w1 of
             (Inr v, w2) \<Rightarrow>
               (case commit env w2 of
                  (Inr u', w3) \<Rightarrow> (Inr v, close w3)
                | (Inl e, w3) \<Rightarrow> get_db_except env e w3)
           | (Inl e, w2) \<Rightarrow> get_db_except env e w2))"

subsection \<open>The statements\<close>

text \<open>\<^verbatim>\<open>CREATE TABLE IF NOT EXISTS feedback (...)\<close>\<close>

definition create_table :: "environment \<Rightarrow> world \<Rightarrow> (exc + unit) \<times> world" where
  "create_table env w =
     (case env Op_create_table of
        Some f \<Rightarrow> (Inl (DriverError f), called Execute w)
      | None \<Rightarrow>
          (case session w of
             None \<Rightarrow> (Inl (DriverError InterfaceError), called Execute w)
           | Some d \<Rightarrow>
               (case feedback d of
                  None \<Rightarrow> (Inr (), (called Execute w)\<lparr>session := Some (d\<lparr>feedback := Some []\<rparr>)\<rparr>)
                | Some rows \<Rightarrow> (Inr (), called Execute w))))"

text \<open>\<^verbatim>\<open>CREATE INDEX IF NOT EXISTS idx_userId ON feedback(userId)\<close>\<close>

definition create_index :: "environment \<Rightarrow> world \<Rightarrow> (exc + unit) \<times> world" where
  "create_index env w =
     (case env Op_create_index of
        Some f \<Rightarrow> (Inl (DriverError f), called Execute w)
      | None \<Rightarrow>
          (case session w of
             None \<Rightarrow> (Inl (DriverError InterfaceError), called Execute w)
           | Some d \<Rightarrow>
               (case feedback d of
                  None \<Rightarrow> (Inl (DriverError ProgrammingError), called Execute w)
                | Some rows \<Rightarrow>
                    (if idx_userId d then (Inr (), called Execute w)
                     else (Inr (), (called Execute w)\<lparr>session := Some (d\<lparr>idx_userId := True\<rparr>)\<rparr>)))))"

text \<open>
  \<^verbatim>\<open>INSERT INTO feedback (username, userId) VALUES (%s, %s)\<close>. The new row takes the next
  value of the sequence as its id; the value is used up even when the primary key or the
  \<^verbatim>\<open>UNIQUE\<close> constraint on \<^verbatim>\<open>userId\<close> then refuses the row.
\<close>

definition insert_feedback ::
  "engine \<Rightarrow> environment \<Rightarrow> pyval \<Rightarrow> pyval \<Rightarrow> world \<Rightarrow> (exc + unit) \<times> world" where
  "insert_feedback eng env name uid w =
     (case env Op_insert of
        Some f \<Rightarrow> (Inl (DriverError f), called Execute w)
      | None \<Rightarrow>
          (case session w of
             None \<Rightarrow> (Inl (DriverError InterfaceError), called Execute w)
           | Some d \<Rightarrow>
               (case to_text eng name of
                  Inl f \<Rightarrow> (Inl (DriverError f), called Execute w)
                | Inr s \<Rightarrow>
                    (case to_bigint eng uid of
                       Inl f \<Rightarrow> (Inl (DriverError f), called Execute w)
                     | Inr k \<Rightarrow>
                         (case feedback d of
                            None \<Rightarrow> (Inl (DriverError ProgrammingError), called Execute w)
                          | Some rows \<Rightarrow>
                              (if feedback_id_seq w + 1 \<in> set (map rid rows) \<or> k \<in> set (map userId rows)
                               then (Inl IntegrityError,
                                     (called Execute w)\<lparr>feedback_id_seq := feedback_id_seq w + 1\<rparr>)
                               else (Inr (),
                                     (called Execute w)
                                       \<lparr>feedback_id_seq := feedback_id_seq w + 1,
                                        session := Some (d\<lparr>feedback := Some (rows @
                                          [\<lparr>rid = feedback_id_seq w + 1, username = s, userId = k\<rparr>])\<rparr>)\<rparr>)))))))"

text \<open>\<^verbatim>\<open>SELECT COUNT(*) as total FROM feedback\<close>, and \<^verbatim>\<open>result['total']\<close>.\<close>

definition select_count :: "environment \<Rightarrow> world \<Rightarrow> (exc + int) \<times> world" where
  "select_count env w =
     (case env Op_count of
        Some f \<Rightarrow> (Inl (DriverError f), called Execute w)
      | None \<Rightarrow>
          (case session w of
             None \<Rightarrow> (Inl (DriverError InterfaceError), called Execute w)
           | Some d \<Rightarrow>
               (case feedback d of
                  None \<Rightarrow> (Inl (DriverError ProgrammingError), called Execute w)
                | Some rows \<Rightarrow> (Inr (int (length rows)), called Execute w))))"

text \<open>
  \<^verbatim>\<open>SELECT id, username, userId FROM feedback ORDER BY id DESC LIMIT 100\<close>, each row as
  the dict of its columns that \<^verbatim>\<open>RealDictCursor\<close> returns.
\<close>

definition row_dict :: "row \<Rightarrow> (column \<times> cell) list" where
  "row_dict r = [(Col_id, CInt (rid r)), (Col_username, CText (username r)), (Col_userId, CInt (userId r))]"

definition recent :: "row list \<Rightarrow> row list" where
  "recent rows = take 100 (rev (sort_key rid rows))"

definition select_recent :: "environment \<Rightarrow> world \<Rightarrow> (exc + (column \<times> cell) list list) \<times> world" where
  "select_recent env w =
     (case env Op_list of
        Some f \<Rightarrow> (Inl (DriverError f), called Execute w)
      | None \<Rightarrow>
          (case session w of
             None \<Rightarrow> (Inl (DriverError InterfaceError), called Execute w)
           | Some d \<Rightarrow>
               (case feedback d of
                  None \<Rightarrow> (Inl (DriverError ProgrammingError), called Execute w)
                | Some rows \<Rightarrow> (Inr (map row_dict (recent rows)), called Execute w))))"

section \<open>The service\<close>

subsection \<open>Start-up\<close>

text \<open>The two statements inside \<^verbatim>\<open>with get_db() as conn\<close>; the first to raise ends the block.\<close>

definition schema_body :: "environment \<Rightarrow> world \<Rightarrow> (exc + unit) \<times> world" where
  "schema_body env w1 =
     (case create_table env w1 of
        (Inl e, w2) \<Rightarrow> (Inl e, w2)
      | (Inr u, w2) \<Rightarrow> create_index env w2)"

definition init_db :: "config \<Rightarrow> environment \<Rightarrow> world \<Rightarrow> (exc + unit) \<times> world" where
  "init_db cfg env w =
     (case get_db cfg env (schema_body env) w of
        (Inl e, w') \<Rightarrow> (Inl e, w')
      | (Inr u, w') \<Rightarrow> (Inr (), logger INFO ''Database initialized successfully'' w'))"

text \<open>\<^verbatim>\<open>try: init_db()  except Exception as e: logger.error(...)\<close>\<close>

definition startup :: "config \<Rightarrow> environment \<Rightarrow> world \<Rightarrow> (exc + unit) \<times> world" where
  "startup cfg env w =
     (case init_db cfg env w of
        (Inr u, w') \<Rightarrow> (Inr (), w')
      | (Inl e, w') \<Rightarrow>
          (if is_Exception e then (Inr (), logger ERROR ''Database initialization failed'' w')
           else (Inl e, w')))"

text \<open>
  The module body from the start-up on: the routes that end up registered, or the
  exception that ends the import.
\<close>

datatype route = Health | Api_submit | Api_stats | Api_list

definition module_body :: "config \<Rightarrow> environment \<Rightarrow> world \<Rightarrow> (exc + route list) \<times> world" where
  "module_body cfg env w =
     (case startup cfg env w of
        (Inl e, w') \<Rightarrow> (Inl e, w')
      | (Inr u, w') \<Rightarrow> (Inr [Health, Api_submit, Api_stats, Api_list], w'))"

subsection \<open>The handlers\<close>

text \<open>\<^verbatim>\<open>API_SECRET and auth_header != API_SECRET\<close>\<close>

definition secret_truthy :: "string option \<Rightarrow> bool" where
  "secret_truthy s = (case s of None \<Rightarrow> False | Some t \<Rightarrow> t \<noteq> [])"

definition unauthorized :: "config \<Rightarrow> request \<Rightarrow> bool" where
  "unauthorized cfg req = (secret_truthy (API_SECRET cfg) \<and> x_api_secret req \<noteq> API_SECRET cfg)"

definition health :: "response" where
  "health = ([(''status'', RStr ''healthy'')], 200)"

definition submit_reply :: "bool \<Rightarrow> string \<Rightarrow> nat \<Rightarrow> response" where
  "submit_reply ok reason code = ([(''success'', RBool ok), (''reason'', RStr reason)], code)"

definition submit_ok :: response where
  "submit_ok = ([(''success'', RBool True)], 200)"

definition error_reply :: "string \<Rightarrow> nat \<Rightarrow> response" where
  "error_reply reason code = ([(''error'', RStr reason)], code)"

definition submit_body ::
  "engine \<Rightarrow> environment \<Rightarrow> pyval \<Rightarrow> pyval \<Rightarrow> world \<Rightarrow> (exc + response) \<times> world" where
  "submit_body eng env name uid w1 =
     (case insert_feedback eng env name uid w1 of
        (Inl e, w2) \<Rightarrow> (Inl e, w2)
      | (Inr u, w2) \<Rightarrow> (Inr submit_ok, logger INFO ''New submission'' w2))"

definition submit ::
  "config \<Rightarrow> engine \<Rightarrow> environment \<Rightarrow> request \<Rightarrow> world \<Rightarrow> (exc + response) \<times> world" where
  "submit cfg eng env req w =
     (if unauthorized cfg req
      then (Inr (submit_reply False ''unauthorized'' 401), logger WARNING ''Invalid API secret'' w)
      else if \<not> is_json req
      then (Inr (submit_reply False ''invalid_content_type'' 400), w)
      else
        (case get_json req of
           Inl e \<Rightarrow>
             (if is_Exception e
              then (Inr (submit_reply False ''invalid_json'' 400), logger ERROR ''JSON parse error'' w)
              else (Inl e, w))
         | Inr data \<Rightarrow>
             (case py_get data ''userId'' of
                Inl e \<Rightarrow> (Inl e, w)
              | Inr user_id \<Rightarrow>
                  (case py_get data ''username'' of
                     Inl e \<Rightarrow> (Inl e, w)
                   | Inr name \<Rightarrow>
                       (if \<not> truthy user_id \<or> \<not> truthy name
                        then (Inr (submit_reply False ''missing_required_fields'' 400), w)
                        else
                          (case get_db cfg env (submit_body eng env name user_id) w of
                             (Inr r, w') \<Rightarrow> (Inr r, w')
                           | (Inl e, w') \<Rightarrow>
                               (if is_IntegrityError e
                                then (Inr (submit_reply False ''already_submitted'' 200),
                                      logger INFO ''Duplicate submission ignored'' w')
                                else if is_Exception e
                                then (Inr (submit_reply False ''internal_error'' 500),
                                      logger ERROR ''Database error'' w')
                                else (Inl e, w'))))))))"

definition stats_body :: "environment \<Rightarrow> world \<Rightarrow> (exc + response) \<times> world" where
  "stats_body env w1 =
     (case select_count env w1 of
        (Inl e, w2) \<Rightarrow> (Inl e, w2)
      | (Inr result_total, w2) \<Rightarrow> (Inr ([(''total_submissions'', RInt result_total)], 200), w2))"

definition stats :: "config \<Rightarrow> environment \<Rightarrow> request \<Rightarrow> world \<Rightarrow> (exc + response) \<times> world" where
  "stats cfg env req w =
     (if unauthorized cfg req then (Inr (error_reply ''unauthorized'' 401), w)
      else
        (case get_db cfg env (stats_body env) w of
           (Inr r, w') \<Rightarrow> (Inr r, w')
         | (Inl e, w') \<Rightarrow>
             (if is_Exception e
              then (Inr (error_reply ''internal_error'' 500), logger ERROR ''Stats error'' w')
              else (Inl e, w'))))"

definition list_body :: "environment \<Rightarrow> world \<Rightarrow> (exc + response) \<times> world" where
  "list_body env w1 =
     (case select_recent env w1 of
        (Inl e, w2) \<Rightarrow> (Inl e, w2)
      | (Inr results, w2) \<Rightarrow>
          (Inr ([(''submissions'', RRows results), (''count'', RInt (int (length results)))], 200), w2))"

definition list_submissions ::
  "config \<Rightarrow> environment \<Rightarrow> request \<Rightarrow> world \<Rightarrow> (exc + response) \<times> world" where
  "list_submissions cfg env req w =
     (if unauthorized cfg req then (Inr (error_reply ''unauthorized'' 401), w)
      else
        (case get_db cfg env (list_body env) w of
           (Inr r, w') \<Rightarrow> (Inr r, w')
         | (Inl e, w') \<Rightarrow>
             (if is_Exception e
              then (Inr (error_reply ''internal_error'' 500), logger ERROR ''List error'' w')
              else (Inl e, w'))))"

section \<open>States of the service\<close>

text \<open>The rows of the committed table; none while the table does not exist.\<close>

definition table_rows :: "world \<Rightarrow> row list" where
  "table_rows w = (case feedback (stored w) of None \<Rightarrow> [] | Some rows \<Rightarrow> rows)"

text \<open>
  What the primary key, the \<^verbatim>\<open>UNIQUE\<close> constraint and the sequence keep true: ids and
  user ids are unique, and the sequence has already handed out every id in the table.
\<close>

definition consistent :: "world \<Rightarrow> bool" where
  "consistent w =
     (distinct (map rid (table_rows w)) \<and> distinct (map userId (table_rows w)) \<and>
      list_all (\<lambda>r. rid r \<le> feedback_id_seq w) (table_rows w))"

text \<open>A server that has never been used, and the states the service can bring it to.\<close>

definition fresh :: world where
  "fresh = \<lparr>stored = \<lparr>feedback = None, idx_userId = False\<rparr>, feedback_id_seq = 0,
            session = None, calls = [], logged = []\<rparr>"

inductive reachable :: "config \<Rightarrow> engine \<Rightarrow> world \<Rightarrow> bool" for cfg :: config and eng :: engine where
  boot: "reachable cfg eng fresh"
| restart: "reachable cfg eng w \<Longrightarrow> reachable cfg eng (snd (startup cfg env w))"
| submitted: "reachable cfg eng w \<Longrightarrow> reachable cfg eng (snd (submit cfg eng env req w))"
| counted: "reachable cfg eng w \<Longrightarrow> reachable cfg eng (snd (stats cfg env req w))"
| listed: "reachable cfg eng w \<Longrightarrow> reachable cfg eng (snd (list_submissions cfg env req w))"

text \<open>A run of submit requests, each in its own environment, with the outcomes in order.\<close>

fun submit_all ::
  "config \<Rightarrow> engine \<Rightarrow> (environment \<times> request) list \<Rightarrow> world \<Rightarrow> (exc + response) list \<times> world" where
  "submit_all cfg eng [] w = ([], w)"
| "submit_all cfg eng ((env, req) # rest) w =
     (case submit cfg eng env req w of
        (r, w1) \<Rightarrow> (case submit_all cfg eng rest w1 of (rs, w2) \<Rightarrow> (r # rs, w2)))"


text \<open>
  A submit request that gets as far as the insert: it passes the gate, its content type is
  JSON, its body parses to an object, and the two fields read from it are truthy.
\<close>

definition passes_validation :: "config \<Rightarrow> request \<Rightarrow> pyval \<Rightarrow> pyval \<Rightarrow> bool" where
  "passes_validation cfg req uid name =
     (\<not> unauthorized cfg req \<and> is_json req \<and>
      (case json req of
         None \<Rightarrow> False
       | Some data \<Rightarrow> py_get data ''userId'' = Inr uid \<and> py_get data ''username'' = Inr name) \<and>
      truthy uid \<and> truthy name)"


subsection \<open>Sample inputs\<close>

text \<open>
  An environment without failures, and an engine that stores a Python int in a
  \<^verbatim>\<open>BIGINT\<close> column and a Python str in a \<^verbatim>\<open>TEXT\<close> column, and nothing else.
\<close>

definition no_faults :: environment where
  "no_faults = (\<lambda>p. None)"

fun sample_text :: "pyval \<Rightarrow> driver_error + string" where
  "sample_text (PStr s) = Inr s"
| "sample_text _ = Inl ProgrammingError"

fun sample_bigint :: "pyval \<Rightarrow> driver_error + int" where
  "sample_bigint (PInt n) = Inr n"
| "sample_bigint _ = Inl DataError"

definition sample_engine :: engine where
  "sample_engine = \<lparr>to_text = sample_text, to_bigint = sample_bigint\<rparr>"

definition sample_config :: config where
  "sample_config = \<lparr>DATABASE_URL = Some ''postgresql://db'', API_SECRET = Some ''s3cret''\<rparr>"

definition post :: "string option \<Rightarrow> pyval \<Rightarrow> request" where
  "post hdr data = \<lparr>x_api_secret = hdr, is_json = True, json = Some data\<rparr>"

definition alice :: request where
  "alice = post (Some ''s3cret'') (PDict [(''userId'', PInt 42), (''username'', PStr ''Alice'')])"

definition bob :: request where
  "bob = post (Some ''s3cret'') (PDict [(''userId'', PInt 42), (''username'', PStr ''Bob'')])"

definition admin :: request where
  "admin = \<lparr>x_api_secret = Some ''s3cret'', is_json = False, json = None\<rparr>"

definition empty_table :: world where
  "empty_table = fresh\<lparr>stored := \<lparr>feedback = Some [], idx_userId = True\<rparr>\<rparr>"

definition one_row :: world where
  "one_row = fresh\<lparr>stored := \<lparr>feedback = Some [\<lparr>rid = 1, username = ''Alice'', userId = 42\<rparr>],
                                  idx_userId = True\<rparr>,
                     feedback_id_seq := 1\<rparr>"

definition anonymous :: request where
  "anonymous = \<lparr>x_api_secret = None, is_json = False, json = None\<rparr>"

definition empty_secret_config :: config where
  "empty_secret_config = \<lparr>DATABASE_URL = Some ''postgresql://db'', API_SECRET = Some []\<rparr>"

text \<open>An environment in which no connection can be made.\<close>

definition outage :: environment where
  "outage = (\<lambda>p. if p = Op_connect then Some OperationalError else None)"

definition carol :: request where
  "carol = post (Some ''s3cret'') (PDict [(''username'', PStr ''Carol''), (''userId'', PInt 7)])"

text \<open>
  The scenario of the specification: a fresh server after the start-up, then after
  Alice's submission, then after Carol's.
\<close>

definition started :: world where
  "started = snd (startup sample_config no_faults fresh)"

definition after_alice :: world where
  "after_alice = snd (submit sample_config sample_engine no_faults alice started)"


section \<open>What each operation does to the server\<close>

lemmas prim_defs = called_def logger_def close_def connect_def commit_def rollback_def get_db_except_def

lemmas sample_defs = no_faults_def sample_engine_def sample_config_def post_def alice_def bob_def
  admin_def empty_table_def one_row_def fresh_def anonymous_def empty_secret_config_def
  carol_def outage_def

lemmas handler_defs = submit_def stats_def list_submissions_def unauthorized_def secret_truthy_def
  get_json_def get_db_def submit_body_def stats_body_def list_body_def insert_feedback_def
  select_count_def select_recent_def submit_reply_def submit_ok_def error_reply_def
  init_db_def startup_def module_body_def schema_body_def create_table_def create_index_def

subsection \<open>The connection and the statements\<close>

lemma connect_cases:
  "connect cfg env w = (r, w1) \<Longrightarrow>
     stored w1 = stored w \<and> feedback_id_seq w1 = feedback_id_seq w \<and> logged w1 = logged w \<and>
     calls w1 = calls w @ [Connect] \<and>
     (case r of Inl e \<Rightarrow> is_Exception e \<and> \<not> is_IntegrityError e \<and> session w1 = session w
              | Inr u \<Rightarrow> session w1 = Some (stored w))"
  by (auto simp: connect_def called_def split: option.splits)

lemma get_db_except_cases:
  "get_db_except env e w = (r, w') \<Longrightarrow>
     stored w' = stored w \<and> feedback_id_seq w' = feedback_id_seq w \<and> logged w' = logged w \<and>
     session w' = None \<and> (\<exists>e'. r = Inl e' \<and> (is_Exception e \<longrightarrow> is_Exception e') \<and>
       (is_IntegrityError e' \<longrightarrow> e' = e)) \<and>
     (\<exists>cs. calls w' = calls w @ cs @ [Close])"
  by (auto simp: prim_defs split: option.splits if_splits)

lemma get_db_cases:
  assumes "get_db cfg env body w = (r', w')"
  shows "(\<exists>e. connect cfg env w = (Inl e, w') \<and> r' = Inl e) \<or>
         (\<exists>w1 r w2. connect cfg env w = (Inr (), w1) \<and> body w1 = (r, w2) \<and>
            feedback_id_seq w' = feedback_id_seq w2 \<and> logged w' = logged w2 \<and> session w' = None \<and>
            ((\<exists>v d. r = Inr v \<and> r' = Inr v \<and> env Op_commit = None \<and> session w2 = Some d \<and> stored w' = d)
             \<or> ((\<exists>e. r' = Inl e \<and> (is_IntegrityError e \<longrightarrow> r = Inl e)
                    \<and> (\<not> is_Exception e \<longrightarrow> r = Inl e)) \<and> stored w' = stored w2)))"
  using assms
  by (auto simp: get_db_def prim_defs split: prod.splits sum.splits option.splits if_splits)

lemma get_db_readonly:
  assumes g: "get_db cfg env body w = (r, w')"
    and b: "\<And>w1 rb w2. body w1 = (rb, w2) \<Longrightarrow>
              stored w2 = stored w1 \<and> session w2 = session w1 \<and> feedback_id_seq w2 = feedback_id_seq w1"
  shows "stored w' = stored w \<and> feedback_id_seq w' = feedback_id_seq w"
  using get_db_cases [OF g]
proof (elim disjE exE conjE)
  fix e assume "connect cfg env w = (Inl e, w')"
  from connect_cases [OF this] show ?thesis by simp
next
  fix w1 rb w2 v d
  assume c: "connect cfg env w = (Inr (), w1)" and "body w1 = (rb, w2)"
    and "feedback_id_seq w' = feedback_id_seq w2" "session w2 = Some d" "stored w' = d"
  with connect_cases [OF c] b [of w1 rb w2] show ?thesis by simp
next
  fix w1 rb w2 e
  assume c: "connect cfg env w = (Inr (), w1)" and "body w1 = (rb, w2)"
    and "feedback_id_seq w' = feedback_id_seq w2" "stored w' = stored w2"
  with connect_cases [OF c] b [of w1 rb w2] show ?thesis by simp
qed

lemma get_db_secret: "get_db (cfg\<lparr>API_SECRET := x\<rparr>) env body w = get_db cfg env body w"
  by (simp add: get_db_def connect_def)

lemma insert_feedback_cases:
  assumes "insert_feedback eng env name uid w = (r, w2)"
  shows "stored w2 = stored w \<and> logged w2 = logged w \<and> calls w2 = calls w @ [Execute] \<and>
         feedback_id_seq w \<le> feedback_id_seq w2 \<and>
         (case r of
            Inl e \<Rightarrow> session w2 = session w \<and> is_Exception e \<and>
              (is_IntegrityError e \<longrightarrow>
                 (\<exists>d rows k. session w = Some d \<and> feedback d = Some rows \<and> to_bigint eng uid = Inr k \<and>
                    (feedback_id_seq w + 1 \<in> set (map rid rows) \<or> k \<in> set (map userId rows))))
          | Inr u \<Rightarrow>
              (\<exists>d rows s k. session w = Some d \<and> feedback d = Some rows \<and>
                 to_text eng name = Inr s \<and> to_bigint eng uid = Inr k \<and>
                 feedback_id_seq w + 1 \<notin> set (map rid rows) \<and> k \<notin> set (map userId rows) \<and>
                 feedback_id_seq w2 = feedback_id_seq w + 1 \<and>
                 session w2 = Some (d\<lparr>feedback := Some (rows @
                   [\<lparr>rid = feedback_id_seq w + 1, username = s, userId = k\<rparr>])\<rparr>)))"
  using assms
  by (auto simp: insert_feedback_def called_def split: option.splits sum.splits if_splits)

lemma submit_body_cases:
  assumes "submit_body eng env name uid w = (r, w2)"
  shows "stored w2 = stored w \<and> feedback_id_seq w \<le> feedback_id_seq w2 \<and>
         (case r of
            Inl e \<Rightarrow> session w2 = session w \<and> is_Exception e \<and>
              (is_IntegrityError e \<longrightarrow>
                 (\<exists>d rows k. session w = Some d \<and> feedback d = Some rows \<and> to_bigint eng uid = Inr k \<and>
                    (feedback_id_seq w + 1 \<in> set (map rid rows) \<or> k \<in> set (map userId rows))))
          | Inr v \<Rightarrow> v = submit_ok \<and>
              (\<exists>d rows s k. session w = Some d \<and> feedback d = Some rows \<and>
                 to_text eng name = Inr s \<and> to_bigint eng uid = Inr k \<and>
                 feedback_id_seq w + 1 \<notin> set (map rid rows) \<and> k \<notin> set (map userId rows) \<and>
                 feedback_id_seq w2 = feedback_id_seq w + 1 \<and>
                 session w2 = Some (d\<lparr>feedback := Some (rows @
                   [\<lparr>rid = feedback_id_seq w + 1, username = s, userId = k\<rparr>])\<rparr>)))"
proof -
  obtain r0 w0 where ins: "insert_feedback eng env name uid w = (r0, w0)"
    by (cases "insert_feedback eng env name uid w")
  from insert_feedback_cases [OF ins] ins assms show ?thesis
    by (cases r0) (auto simp: submit_body_def logger_def)
qed

lemma select_count_cases:
  "select_count env w = (r, w2) \<Longrightarrow>
     stored w2 = stored w \<and> session w2 = session w \<and> feedback_id_seq w2 = feedback_id_seq w \<and>
     (case r of Inl e \<Rightarrow> is_Exception e | Inr n \<Rightarrow> True)"
  by (auto simp: select_count_def called_def split: option.splits)

lemma select_recent_cases:
  "select_recent env w = (r, w2) \<Longrightarrow>
     stored w2 = stored w \<and> session w2 = session w \<and> feedback_id_seq w2 = feedback_id_seq w \<and>
     (case r of Inl e \<Rightarrow> is_Exception e | Inr n \<Rightarrow> True)"
  by (auto simp: select_recent_def called_def split: option.splits)

lemma schema_body_cases:
  assumes "schema_body env w = (r, w2)"
  shows "stored w2 = stored w \<and> feedback_id_seq w2 = feedback_id_seq w \<and> logged w2 = logged w \<and>
         (case r of
            Inl e \<Rightarrow> is_Exception e
          | Inr u \<Rightarrow> (\<exists>d. session w = Some d \<and>
              session w2 = Some \<lparr>feedback = Some (case feedback d of None \<Rightarrow> [] | Some rows \<Rightarrow> rows),
                                 idx_userId = True\<rparr>))"
  using assms
  by (auto simp: schema_body_def create_table_def create_index_def called_def
        split: option.splits sum.splits if_splits prod.splits)

subsection \<open>The handlers and the start-up\<close>

text \<open>What one submit call does to the committed table and the sequence.\<close>

lemma submit_effect:
  assumes "submit cfg eng env req w = (r, w')"
  shows "feedback_id_seq w \<le> feedback_id_seq w' \<and>
         (stored w' = stored w \<and> r \<noteq> Inr submit_ok \<or>
          r = Inr submit_ok \<and>
          (\<exists>rows s k. feedback (stored w) = Some rows \<and>
             feedback_id_seq w + 1 \<notin> set (map rid rows) \<and> k \<notin> set (map userId rows) \<and>
             feedback_id_seq w' = feedback_id_seq w + 1 \<and>
             stored w' = (stored w)\<lparr>feedback := Some (rows @
                   [\<lparr>rid = feedback_id_seq w + 1, username = s, userId = k\<rparr>])\<rparr>))"
proof -
  consider (early) "stored w' = stored w" "feedback_id_seq w' = feedback_id_seq w" "r \<noteq> Inr submit_ok"
    | (db) name uid r0 w0 where "get_db cfg env (submit_body eng env name uid) w = (r0, w0)"
        "stored w' = stored w0" "feedback_id_seq w' = feedback_id_seq w0"
        "case r0 of Inr v \<Rightarrow> r = Inr v | Inl e \<Rightarrow> r \<noteq> Inr submit_ok"
    using assms
    by (auto simp: submit_def logger_def submit_reply_def submit_ok_def
          split: if_splits sum.splits prod.splits)
  then show ?thesis
  proof cases
    case early
    then show ?thesis by simp
  next
    case db
    from get_db_cases [OF db(1)] show ?thesis
    proof (elim disjE exE conjE)
      fix e
      assume "connect cfg env w = (Inl e, w0)" "r0 = Inl e"
      with connect_cases [of cfg env w "Inl e" w0] db show ?thesis by simp
    next
      fix w1 rb w2 v d
      assume c: "connect cfg env w = (Inr (), w1)" and b: "submit_body eng env name uid w1 = (rb, w2)"
        and s: "feedback_id_seq w0 = feedback_id_seq w2"
        and r: "rb = Inr v" "r0 = Inr v" "session w2 = Some d" "stored w0 = d"
      from connect_cases [OF c] submit_body_cases [OF b] r s db show ?thesis
        by auto
    next
      fix w1 rb w2 e
      assume c: "connect cfg env w = (Inr (), w1)" and b: "submit_body eng env name uid w1 = (rb, w2)"
        and s: "feedback_id_seq w0 = feedback_id_seq w2"
        and r: "r0 = Inl e" "stored w0 = stored w2"
      from connect_cases [OF c] submit_body_cases [OF b] r s db show ?thesis
        by auto
    qed
  qed
qed

lemma stats_effect:
  assumes "stats cfg env req w = (r, w')"
  shows "stored w' = stored w \<and> feedback_id_seq w' = feedback_id_seq w"
proof -
  obtain r0 w0 where g: "get_db cfg env (stats_body env) w = (r0, w0)"
    by (cases "get_db cfg env (stats_body env) w")
  have "stored w0 = stored w \<and> feedback_id_seq w0 = feedback_id_seq w"
  proof (rule get_db_readonly [OF g])
    fix w1 rb w2 assume "stats_body env w1 = (rb, w2)"
    then show "stored w2 = stored w1 \<and> session w2 = session w1 \<and> feedback_id_seq w2 = feedback_id_seq w1"
      using select_count_cases [of env w1]
      by (cases "select_count env w1") (auto simp: stats_body_def split: sum.splits)
  qed
  with assms g show ?thesis
    by (auto simp: stats_def logger_def split: if_splits sum.splits)
qed

lemma list_effect:
  assumes "list_submissions cfg env req w = (r, w')"
  shows "stored w' = stored w \<and> feedback_id_seq w' = feedback_id_seq w"
proof -
  obtain r0 w0 where g: "get_db cfg env (list_body env) w = (r0, w0)"
    by (cases "get_db cfg env (list_body env) w")
  have "stored w0 = stored w \<and> feedback_id_seq w0 = feedback_id_seq w"
  proof (rule get_db_readonly [OF g])
    fix w1 rb w2 assume "list_body env w1 = (rb, w2)"
    then show "stored w2 = stored w1 \<and> session w2 = session w1 \<and> feedback_id_seq w2 = feedback_id_seq w1"
      using select_recent_cases [of env w1]
      by (cases "select_recent env w1") (auto simp: list_body_def split: sum.splits)
  qed
  with assms g show ?thesis
    by (auto simp: list_submissions_def logger_def split: if_splits sum.splits)
qed

lemma init_db_cases:
  assumes "init_db cfg env w = (r, w')"
  shows "feedback_id_seq w' = feedback_id_seq w \<and>
         (case r of
            Inl e \<Rightarrow> is_Exception e \<and> stored w' = stored w \<and> logged w' = logged w
          | Inr u \<Rightarrow> stored w' =
              \<lparr>feedback = Some (case feedback (stored w) of None \<Rightarrow> [] | Some rows \<Rightarrow> rows),
               idx_userId = True\<rparr>)"
proof -
  obtain r0 w0 where g: "get_db cfg env (schema_body env) w = (r0, w0)"
    by (cases "get_db cfg env (schema_body env) w")
  from get_db_cases [OF g] show ?thesis
  proof (elim disjE exE conjE)
    fix e assume c: "connect cfg env w = (Inl e, w0)" and "r0 = Inl e"
    with connect_cases [OF c] g assms show ?thesis
      by (auto simp: init_db_def)
  next
    fix w1 rb w2 v d
    assume c: "connect cfg env w = (Inr (), w1)" and b: "schema_body env w1 = (rb, w2)"
      and "feedback_id_seq w0 = feedback_id_seq w2" "rb = Inr v" "r0 = Inr v"
      "session w2 = Some d" "stored w0 = d"
    with connect_cases [OF c] schema_body_cases [OF b] g assms show ?thesis
      by (auto simp: init_db_def logger_def)
  next
    fix w1 rb w2 e
    assume c: "connect cfg env w = (Inr (), w1)" and b: "schema_body env w1 = (rb, w2)"
      and "feedback_id_seq w0 = feedback_id_seq w2" "logged w0 = logged w2" "r0 = Inl e" "stored w0 = stored w2"
      and i: "is_IntegrityError e \<longrightarrow> rb = Inl e" "\<not> is_Exception e \<longrightarrow> rb = Inl e"
    with connect_cases [OF c] schema_body_cases [OF b] g assms show ?thesis
      by (cases "is_Exception e") (auto simp: init_db_def)
  qed
qed

lemma table_rows_startup:
  "table_rows (snd (startup cfg env w)) = table_rows w \<and>
   feedback_id_seq (snd (startup cfg env w)) = feedback_id_seq w"
  using init_db_cases [of cfg env w "fst (init_db cfg env w)" "snd (init_db cfg env w)"]
  by (cases "init_db cfg env w")
     (auto simp: startup_def table_rows_def logger_def split: sum.splits option.splits)

lemma startup_never_raises: "fst (startup cfg env w) = Inr ()"
  using init_db_cases [of cfg env w "fst (init_db cfg env w)" "snd (init_db cfg env w)"]
  by (cases "init_db cfg env w") (auto simp: startup_def split: sum.splits)

subsection \<open>Consistency is invariant\<close>

lemma consistent_submit:
  assumes "consistent w"
  shows "consistent (snd (submit cfg eng env req w))"
proof -
  obtain r w' where s: "submit cfg eng env req w = (r, w')"
    by (cases "submit cfg eng env req w")
  from submit_effect [OF s] assms have "consistent w'"
    by (fastforce simp: consistent_def table_rows_def list_all_iff)
  with s show ?thesis by simp
qed

lemma reachable_consistent: "reachable cfg eng w \<Longrightarrow> consistent w"
proof (induction rule: reachable.induct)
  case boot
  show ?case by (simp add: consistent_def table_rows_def fresh_def)
next
  case (restart w env)
  with table_rows_startup [of cfg env w] show ?case by (simp add: consistent_def)
next
  case (submitted w env req)
  from submitted.IH show ?case by (rule consistent_submit)
next
  case (counted w env req)
  with stats_effect [of cfg env req w] show ?case
    by (cases "stats cfg env req w") (simp add: consistent_def table_rows_def)
next
  case (listed w env req)
  with list_effect [of cfg env req w] show ?case
    by (cases "list_submissions cfg env req w") (simp add: consistent_def table_rows_def)
qed

subsection \<open>A submit request that reaches the insert\<close>

lemma submit_missing_fields:
  assumes "\<not> unauthorized cfg req" and "is_json req" and "json req = Some (PDict kvs)"
    and "py_get (PDict kvs) ''userId'' = Inr uid" and "py_get (PDict kvs) ''username'' = Inr name"
    and "\<not> truthy uid \<or> \<not> truthy name"
  shows "submit cfg eng env req w = (Inr (submit_reply False ''missing_required_fields'' 400), w)"
  using assms by (auto simp: submit_def get_json_def)

lemma submit_validated:
  assumes "passes_validation cfg req uid name"
  shows "submit cfg eng env req w =
     (case get_db cfg env (submit_body eng env name uid) w of
        (Inr r, w') \<Rightarrow> (Inr r, w')
      | (Inl e, w') \<Rightarrow>
          (if is_IntegrityError e
           then (Inr (submit_reply False ''already_submitted'' 200),
                 logger INFO ''Duplicate submission ignored'' w')
           else if is_Exception e
           then (Inr (submit_reply False ''internal_error'' 500), logger ERROR ''Database error'' w')
           else (Inl e, w')))"
  using assms
  by (auto simp: passes_validation_def submit_def get_json_def split: option.splits)

lemma submit_fresh_key:
  assumes c: "consistent w" and v: "passes_validation cfg req uid name"
    and "to_text eng name = Inr s" and "to_bigint eng uid = Inr k"
    and f: "feedback (stored w) = Some rows" and "k \<notin> set (map userId rows)"
    and "DATABASE_URL cfg = Some url"
    and "env Op_connect = None" and "env Op_insert = None" and "env Op_commit = None"
  shows "fst (submit cfg eng env req w) = Inr submit_ok \<and>
         feedback (stored (snd (submit cfg eng env req w))) =
           Some (rows @ [\<lparr>rid = feedback_id_seq w + 1, username = s, userId = k\<rparr>])"
proof -
  from c f have "\<forall>r\<in>set rows. rid r \<le> feedback_id_seq w"
    by (simp add: consistent_def table_rows_def list_all_iff)
  then have "feedback_id_seq w + 1 \<notin> set (map rid rows)"
    by auto
  with assms show ?thesis
    unfolding submit_validated [OF v]
    by (simp add: get_db_def submit_body_def insert_feedback_def prim_defs)
qed

lemma submit_duplicate_key:
  assumes v: "passes_validation cfg req uid name"
    and "to_text eng name = Inr s" and "to_bigint eng uid = Inr k"
    and f: "feedback (stored w) = Some rows" and "k \<in> set (map userId rows)"
    and "DATABASE_URL cfg = Some url"
    and "env Op_connect = None" and "env Op_insert = None" and "env Op_rollback = None"
  shows "fst (submit cfg eng env req w) = Inr (submit_reply False ''already_submitted'' 200) \<and>
         stored (snd (submit cfg eng env req w)) = stored w"
  using assms
  unfolding submit_validated [OF v]
  by (simp add: get_db_def submit_body_def insert_feedback_def prim_defs)

lemma submit_duplicate_never_writes:
  assumes j: "json req = Some data" and u: "py_get data ''userId'' = Inr uid"
    and f: "feedback (stored w) = Some rows"
    and k: "to_bigint eng uid = Inr k" "k \<in> set (map userId rows)"
  shows "stored (snd (submit cfg eng env req w)) = stored w"
proof -
  from u obtain name where n: "py_get data ''username'' = Inr name"
    by (cases data) auto
  obtain r0 w0 where g: "get_db cfg env (submit_body eng env name uid) w = (r0, w0)"
    by (cases "get_db cfg env (submit_body eng env name uid) w")
  from get_db_cases [OF g] have "stored w0 = stored w"
  proof (elim disjE exE conjE)
    fix e assume "connect cfg env w = (Inl e, w0)"
    from connect_cases [OF this] show ?thesis by simp
  next
    fix w1 rb w2 v d
    assume c: "connect cfg env w = (Inr (), w1)" and b: "submit_body eng env name uid w1 = (rb, w2)"
      and "rb = Inr v"
    with connect_cases [OF c] submit_body_cases [OF b] f k show ?thesis by auto
  next
    fix w1 rb w2 e
    assume c: "connect cfg env w = (Inr (), w1)" and b: "submit_body eng env name uid w1 = (rb, w2)"
      and "stored w0 = stored w2"
    with connect_cases [OF c] submit_body_cases [OF b] show ?thesis by simp
  qed
  with j u n g show ?thesis
    by (cases r0) (auto simp: submit_def get_json_def logger_def)
qed


lemma submit_all_rows:
  assumes "feedback (stored w) = Some rows"
  shows "\<exists>rows'. feedback (stored (snd (submit_all cfg eng steps w))) = Some rows' \<and>
           length rows' = length rows + count_list (fst (submit_all cfg eng steps w)) (Inr submit_ok)"
  using assms
proof (induction steps arbitrary: w rows)
  case Nil
  then show ?case by simp
next
  case (Cons step steps)
  obtain env req where st: "step = (env, req)" by (cases step)
  obtain r w1 where s: "submit cfg eng env req w = (r, w1)"
    by (cases "submit cfg eng env req w")
  obtain rs w2 where a: "submit_all cfg eng steps w1 = (rs, w2)"
    by (cases "submit_all cfg eng steps w1")
  from submit_effect [OF s] Cons.prems
  obtain rows1 where r1: "feedback (stored w1) = Some rows1"
    and l1: "length rows1 = length rows + (if r = Inr submit_ok then 1 else 0)"
    by (auto split: if_splits)
  from Cons.IH [OF r1] a
  obtain rows' where "feedback (stored w2) = Some rows'"
    and "length rows' = length rows1 + count_list rs (Inr submit_ok)"
    by auto
  with l1 st s a show ?case by auto
qed

subsection \<open>Reading\<close>

lemma stats_total:
  assumes "feedback (stored w) = Some rows" and "\<not> unauthorized cfg req"
    and "DATABASE_URL cfg = Some url"
    and "env Op_connect = None" and "env Op_count = None" and "env Op_commit = None"
  shows "fst (stats cfg env req w) = Inr ([(''total_submissions'', RInt (int (length rows)))], 200)"
  using assms
  by (simp add: stats_def get_db_def stats_body_def select_count_def prim_defs)





subsection \<open>The sample run\<close>

lemma started_eq:
  "started = \<lparr>stored = \<lparr>feedback = Some [], idx_userId = True\<rparr>, feedback_id_seq = 0, session = None,
     calls = [Connect, Execute, Execute, Commit, Close],
     logged = [(INFO, ''Database initialized successfully'')]\<rparr>"
  by (simp add: started_def handler_defs prim_defs sample_defs)

lemma after_alice_eq:
  "after_alice = \<lparr>stored = \<lparr>feedback = Some [\<lparr>rid = 1, username = ''Alice'', userId = 42\<rparr>],
        idx_userId = True\<rparr>, feedback_id_seq = 1, session = None,
     calls = [Connect, Execute, Execute, Commit, Close, Connect, Execute, Commit, Close],
     logged = [(INFO, ''Database initialized successfully''), (INFO, ''New submission'')]\<rparr>"
  by (simp add: after_alice_def started_eq handler_defs prim_defs sample_defs)


lemma reachable_started: "reachable sample_config sample_engine started"
  unfolding started_def by (rule reachable.restart [OF reachable.boot])

lemma reachable_after_alice: "reachable sample_config sample_engine after_alice"
  unfolding after_alice_def by (rule reachable.submitted [OF reachable_started])


section \<open>One record per user\<close>

text \<open>
  Claim C1. In every state the service can reach, no two rows of the table have the same
  \<^verbatim>\<open>userId\<close>, whatever requests were made and whatever failed. And a submit request that
  passes validation, with fields the engine stores as \<open>s\<close> and \<open>k\<close>, for a user id \<open>k\<close>
  not yet in the table, on a server that does not fail, is answered \<^verbatim>\<open>{"success": true}\<close>
  with 200 and adds exactly one row, which carries \<open>s\<close> and \<open>k\<close>.
\<close>

theorem one_record_per_userId:
  assumes "reachable cfg eng w"
  shows "distinct (map userId (table_rows w)) \<and>
         (passes_validation cfg req uid name \<and> to_text eng name = Inr s \<and> to_bigint eng uid = Inr k \<and>
          feedback (stored w) = Some rows \<and> k \<notin> set (map userId rows) \<and>
          DATABASE_URL cfg = Some url \<and>
          env Op_connect = None \<and> env Op_insert = None \<and> env Op_commit = None \<longrightarrow>
            fst (submit cfg eng env req w) = Inr submit_ok \<and>
            feedback (stored (snd (submit cfg eng env req w))) =
              Some (rows @ [\<lparr>rid = feedback_id_seq w + 1, username = s, userId = k\<rparr>]))"
proof -
  from assms have c: "consistent w" by (rule reachable_consistent)
  then have "distinct (map userId (table_rows w))" by (simp add: consistent_def)
  with submit_fresh_key [OF c] show ?thesis by blast
qed

theorem one_record_per_userId_witness:
  "reachable sample_config sample_engine started \<and>
   passes_validation sample_config alice (PInt 42) (PStr ''Alice'') \<and>
   to_text sample_engine (PStr ''Alice'') = Inr ''Alice'' \<and>
   to_bigint sample_engine (PInt 42) = Inr 42 \<and>
   feedback (stored started) = Some [] \<and>
   fst (submit sample_config sample_engine no_faults alice started) = Inr submit_ok \<and>
   feedback (stored (snd (submit sample_config sample_engine no_faults alice started))) =
     Some [\<lparr>rid = 1, username = ''Alice'', userId = 42\<rparr>] \<and>
   reachable sample_config sample_engine after_alice \<and>
   distinct (map userId (table_rows after_alice))"
  using one_record_per_userId [OF reachable_started, of alice "PInt 42" "PStr ''Alice''" "''Alice''" 42 "[]"
      "''postgresql://db''" no_faults]
    one_record_per_userId [OF reachable_after_alice]
    reachable_started reachable_after_alice
  by (simp add: started_eq passes_validation_def unauthorized_def secret_truthy_def sample_defs)

text \<open>
  Claim C2. When the \<^verbatim>\<open>userId\<close> of a submit request is that of a stored row, the
  committed database after the call is what it was before, whatever the username and
  whatever the environment does: the stored username stays and there is no second row.
  When the request passes validation, the driver takes the username and connect, insert
  and rollback do not fail, the answer is \<^verbatim>\<open>already_submitted\<close> with 200.
\<close>

theorem repeat_submit_already_submitted:
  assumes "json req = Some data" and "py_get data ''userId'' = Inr uid"
    and "feedback (stored w) = Some rows"
    and "to_bigint eng uid = Inr k" and "k \<in> set (map userId rows)"
  shows "stored (snd (submit cfg eng env req w)) = stored w \<and>
         (passes_validation cfg req uid name \<and> to_text eng name = Inr s \<and>
          DATABASE_URL cfg = Some url \<and>
          env Op_connect = None \<and> env Op_insert = None \<and> env Op_rollback = None \<longrightarrow>
            fst (submit cfg eng env req w) = Inr (submit_reply False ''already_submitted'' 200))"
  using submit_duplicate_never_writes [OF assms] submit_duplicate_key [OF _ _ assms(4,3,5)]
  by blast

theorem repeat_submit_already_submitted_witness:
  "json bob = Some (PDict [(''userId'', PInt 42), (''username'', PStr ''Bob'')]) \<and>
   py_get (PDict [(''userId'', PInt 42), (''username'', PStr ''Bob'')]) ''userId'' = Inr (PInt 42) \<and>
   passes_validation sample_config bob (PInt 42) (PStr ''Bob'') \<and>
   to_text sample_engine (PStr ''Bob'') = Inr ''Bob'' \<and>
   to_bigint sample_engine (PInt 42) = Inr 42 \<and>
   feedback (stored after_alice) = Some [\<lparr>rid = 1, username = ''Alice'', userId = 42\<rparr>] \<and>
   fst (submit sample_config sample_engine no_faults bob after_alice) =
     Inr (submit_reply False ''already_submitted'' 200) \<and>
   stored (snd (submit sample_config sample_engine no_faults bob after_alice)) = stored after_alice"
  using repeat_submit_already_submitted [of bob "PDict [(''userId'', PInt 42), (''username'', PStr ''Bob'')]"
      "PInt 42" after_alice "[\<lparr>rid = 1, username = ''Alice'', userId = 42\<rparr>]" sample_engine 42
      sample_config no_faults "PStr ''Bob''" "''Bob''" "''postgresql://db''"]
  by (simp add: after_alice_eq passes_validation_def unauthorized_def secret_truthy_def sample_defs)



section \<open>Authorization\<close>

text \<open>
  Claim C3, as the code has it. A secret that is set and not empty closes all three
  endpoints to a request whose \<^verbatim>\<open>X-API-Secret\<close> header is absent or different: the answer
  is 401, given before the content type, the body or the fields are looked at, and no call
  reaches the driver (the world is returned as it was; submit adds a warning to the log).
\<close>

theorem wrong_secret_is_401:
  assumes "API_SECRET cfg = Some s" and "s \<noteq> []" and "x_api_secret req \<noteq> Some s"
  shows "submit cfg eng env req w =
           (Inr (submit_reply False ''unauthorized'' 401), logger WARNING ''Invalid API secret'' w) \<and>
         stats cfg env req w = (Inr (error_reply ''unauthorized'' 401), w) \<and>
         list_submissions cfg env req w = (Inr (error_reply ''unauthorized'' 401), w) \<and>
         calls (snd (submit cfg eng env req w)) = calls w \<and>
         stored (snd (submit cfg eng env req w)) = stored w \<and>
         session (snd (submit cfg eng env req w)) = session w \<and>
         feedback_id_seq (snd (submit cfg eng env req w)) = feedback_id_seq w"
  using assms
  by (simp add: submit_def stats_def list_submissions_def unauthorized_def secret_truthy_def logger_def)

text \<open>
  A secret that is set but empty does not close the gate: with no header at all,
  \<^verbatim>\<open>/api/stats\<close> answers 200.
\<close>

theorem empty_secret_no_401:
  "API_SECRET empty_secret_config \<noteq> None \<and>
   x_api_secret anonymous \<noteq> API_SECRET empty_secret_config \<and>
   fst (stats empty_secret_config no_faults anonymous empty_table) =
     Inr ([(''total_submissions'', RInt 0)], 200)"
  by (simp add: handler_defs prim_defs sample_defs)

theorem wrong_secret_is_401_witness:
  "API_SECRET sample_config = Some ''s3cret'' \<and> ''s3cret'' \<noteq> [] \<and>
   x_api_secret anonymous \<noteq> Some ''s3cret'' \<and>
   submit sample_config sample_engine no_faults anonymous one_row =
     (Inr (submit_reply False ''unauthorized'' 401), logger WARNING ''Invalid API secret'' one_row) \<and>
   stats sample_config no_faults anonymous one_row = (Inr (error_reply ''unauthorized'' 401), one_row) \<and>
   list_submissions sample_config no_faults anonymous one_row =
     (Inr (error_reply ''unauthorized'' 401), one_row)"
  using wrong_secret_is_401 [of sample_config "''s3cret''" anonymous sample_engine no_faults one_row]
  by (simp add: sample_config_def anonymous_def)

text \<open>
  Claim C10. With the empty string as secret no request is unauthorized, and each of the
  three handlers does exactly what it does when no secret is set.
\<close>

theorem empty_secret_opens_gate:
  assumes "API_SECRET cfg = Some []"
  shows "\<not> unauthorized cfg req \<and>
         submit cfg eng env req w = submit (cfg\<lparr>API_SECRET := None\<rparr>) eng env req w \<and>
         stats cfg env req w = stats (cfg\<lparr>API_SECRET := None\<rparr>) env req w \<and>
         list_submissions cfg env req w = list_submissions (cfg\<lparr>API_SECRET := None\<rparr>) env req w"
proof -
  have u: "\<not> unauthorized cfg req" "\<not> unauthorized (cfg\<lparr>API_SECRET := None\<rparr>) req"
    using assms by (simp_all add: unauthorized_def secret_truthy_def)
  show ?thesis
    unfolding submit_def stats_def list_submissions_def get_db_secret
    using u by simp
qed

theorem empty_secret_opens_gate_witness:
  "API_SECRET empty_secret_config = Some [] \<and>
   \<not> unauthorized empty_secret_config anonymous \<and>
   stats empty_secret_config no_faults anonymous empty_table =
     stats (empty_secret_config\<lparr>API_SECRET := None\<rparr>) no_faults anonymous empty_table"
  using empty_secret_opens_gate [of empty_secret_config anonymous sample_engine no_faults empty_table]
  by (simp add: empty_secret_config_def)

section \<open>Validation\<close>

text \<open>
  Claim C5 at a JSON body that is not an object (here the empty array, in which both
  fields are absent): \<^verbatim>\<open>data.get\<close> raises \<^verbatim>\<open>AttributeError\<close> outside every
  \<^verbatim>\<open>try\<close>, so the handler raises instead of answering 400. Nothing is written. For
  a body that is an object, \<open>submit_missing_fields\<close> above gives the answer of the claim.
\<close>

theorem submit_body_not_a_dict:
  "submit \<lparr>DATABASE_URL = url, API_SECRET = None\<rparr> eng env
      \<lparr>x_api_secret = hdr, is_json = True, json = Some (PList [])\<rparr> w = (Inl AttributeError, w)"
  by (simp add: submit_def unauthorized_def secret_truthy_def get_json_def)

theorem submit_body_not_a_dict_witness:
  "submit \<lparr>DATABASE_URL = Some ''postgresql://db'', API_SECRET = None\<rparr> sample_engine no_faults
      \<lparr>x_api_secret = None, is_json = True, json = Some (PList [])\<rparr> fresh = (Inl AttributeError, fresh) \<and>
   py_get (PList []) ''userId'' = Inl AttributeError"
  using submit_body_not_a_dict [of "Some ''postgresql://db''" sample_engine no_faults None fresh]
  by simp

section \<open>Transactions\<close>

text \<open>
  Claim C6. Once \<^verbatim>\<open>get_db\<close> has a connection, and for any body that leaves it open:
  the connection is closed when \<^verbatim>\<open>get_db\<close> is left, on every path, and \<^verbatim>\<open>close\<close> is
  the last call made; when the body returns and the commit goes through, what the body
  did in its transaction becomes the stored database and the body's value is returned;
  when the body raises an \<^verbatim>\<open>Exception\<close>, \<^verbatim>\<open>rollback\<close> is called and the same
  exception is raised again; and whenever \<^verbatim>\<open>get_db\<close> raises, the stored database is
  the one the body left, which is the one before the request for a body that works through
  its connection. (The sequence behind \<^verbatim>\<open>SERIAL\<close> is not part of a transaction.)
\<close>

theorem get_db_commits_rolls_back_closes:
  assumes "connect cfg env w = (Inr (), w1)" and "body w1 = (r, w2)" and "session w2 = Some d"
  shows "session (snd (get_db cfg env body w)) = None \<and>
         last (calls (snd (get_db cfg env body w))) = Close \<and>
         (\<forall>v. r = Inr v \<and> env Op_commit = None \<longrightarrow>
            fst (get_db cfg env body w) = Inr v \<and>
            stored (snd (get_db cfg env body w)) = d \<and>
            calls (snd (get_db cfg env body w)) = calls w2 @ [Commit, Close]) \<and>
         (\<forall>e. r = Inl e \<and> is_Exception e \<and> env Op_rollback = None \<longrightarrow>
            fst (get_db cfg env body w) = Inl e \<and>
            calls (snd (get_db cfg env body w)) = calls w2 @ [Rollback, Close]) \<and>
         (\<forall>e. fst (get_db cfg env body w) = Inl e \<longrightarrow>
            stored (snd (get_db cfg env body w)) = stored w2) \<and>
         (\<forall>e. fst (get_db cfg env body w) = Inl e \<and> stored w2 = stored w1 \<longrightarrow>
            stored (snd (get_db cfg env body w)) = stored w)"
proof -
  have s: "stored w1 = stored w"
    using connect_cases [OF assms(1)] by simp
  show ?thesis
    using assms s
    by (cases r; cases "env Op_commit"; cases "env Op_rollback")
       (auto simp: get_db_def commit_def rollback_def close_def called_def get_db_except_def)
qed

theorem get_db_commits_rolls_back_closes_witness:
  "connect sample_config no_faults started =
     (Inr (), snd (connect sample_config no_faults started)) \<and>
   fst (get_db sample_config no_faults (submit_body sample_engine no_faults (PStr ''Alice'') (PInt 42))
          started) = Inr submit_ok \<and>
   stored (snd (get_db sample_config no_faults
                  (submit_body sample_engine no_faults (PStr ''Alice'') (PInt 42)) started)) =
     \<lparr>feedback = Some [\<lparr>rid = 1, username = ''Alice'', userId = 42\<rparr>], idx_userId = True\<rparr> \<and>
   calls (snd (get_db sample_config no_faults
                 (submit_body sample_engine no_faults (PStr ''Alice'') (PInt 42)) started)) =
     calls started @ [Connect, Execute, Commit, Close] \<and>
   connect sample_config no_faults after_alice =
     (Inr (), snd (connect sample_config no_faults after_alice)) \<and>
   fst (get_db sample_config no_faults (submit_body sample_engine no_faults (PStr ''Bob'') (PInt 42))
          after_alice) = Inl IntegrityError \<and>
   stored (snd (get_db sample_config no_faults
                  (submit_body sample_engine no_faults (PStr ''Bob'') (PInt 42)) after_alice)) =
     stored after_alice \<and>
   calls (snd (get_db sample_config no_faults
                 (submit_body sample_engine no_faults (PStr ''Bob'') (PInt 42)) after_alice)) =
     calls after_alice @ [Connect, Execute, Rollback, Close] \<and>
   session (snd (get_db sample_config no_faults
                   (submit_body sample_engine no_faults (PStr ''Bob'') (PInt 42)) after_alice)) = None"
proof -
  let ?a = "submit_body sample_engine no_faults (PStr ''Alice'') (PInt 42)"
  let ?b = "submit_body sample_engine no_faults (PStr ''Bob'') (PInt 42)"
  let ?c1 = "snd (connect sample_config no_faults started)"
  let ?c2 = "snd (connect sample_config no_faults after_alice)"
  have c1: "connect sample_config no_faults started = (Inr (), ?c1)"
    by (simp add: connect_def sample_defs)
  have c2: "connect sample_config no_faults after_alice = (Inr (), ?c2)"
    by (simp add: connect_def sample_defs)
  have a: "?a ?c1 = (Inr submit_ok, snd (?a ?c1))"
    and sa: "session (snd (?a ?c1)) =
      Some \<lparr>feedback = Some [\<lparr>rid = 1, username = ''Alice'', userId = 42\<rparr>], idx_userId = True\<rparr>"
    and ca: "calls (snd (?a ?c1)) = calls started @ [Connect, Execute]"
    by (simp_all add: started_eq submit_body_def insert_feedback_def prim_defs sample_defs)
  have b: "?b ?c2 = (Inl IntegrityError, snd (?b ?c2))"
    and sb: "session (snd (?b ?c2)) = Some (stored after_alice)"
    and cb: "calls (snd (?b ?c2)) = calls after_alice @ [Connect, Execute]"
    and tb': "stored (snd (?b ?c2)) = stored ?c2"
    by (simp_all add: after_alice_eq submit_body_def insert_feedback_def prim_defs sample_defs)
  have n: "no_faults Op_commit = None" "no_faults Op_rollback = None" "is_Exception IntegrityError"
    by (simp_all add: no_faults_def)
  note ta = get_db_commits_rolls_back_closes [where body = "?a", OF c1 a sa]
  note tb = get_db_commits_rolls_back_closes [where body = "?b", OF c2 b sb]
  from ta n have pa: "fst (get_db sample_config no_faults ?a started) = Inr submit_ok"
    "stored (snd (get_db sample_config no_faults ?a started)) =
       \<lparr>feedback = Some [\<lparr>rid = 1, username = ''Alice'', userId = 42\<rparr>], idx_userId = True\<rparr>"
    "calls (snd (get_db sample_config no_faults ?a started)) = calls (snd (?a ?c1)) @ [Commit, Close]"
    by blast+
  from tb n have pb: "fst (get_db sample_config no_faults ?b after_alice) = Inl IntegrityError"
    "calls (snd (get_db sample_config no_faults ?b after_alice)) = calls (snd (?b ?c2)) @ [Rollback, Close]"
    "session (snd (get_db sample_config no_faults ?b after_alice)) = None"
    by blast+
  from tb pb(1) tb' have sb': "stored (snd (get_db sample_config no_faults ?b after_alice)) = stored after_alice"
    by blast
  from c1 c2 pa pb sb' ca cb show ?thesis
    by simp
qed

section \<open>Listing and counting\<close>



text \<open>
  Claim C8. Where the table exists, an authorized stats request served without a failure
  is answered with 200 and the number of rows. After any run of submit requests the number
  has grown by the number of requests answered \<^verbatim>\<open>{"success": true}\<close>, so that on a
  table that was empty it is that number, and a request answered otherwise adds nothing.
\<close>

theorem stats_counts_successful_submissions:
  assumes "feedback (stored w) = Some rows" and "\<not> unauthorized cfg req"
    and "DATABASE_URL cfg = Some url"
    and "env Op_connect = None" and "env Op_count = None" and "env Op_commit = None"
  shows "fst (stats cfg env req w) = Inr ([(''total_submissions'', RInt (int (length rows)))], 200) \<and>
         fst (stats cfg env req (snd (submit_all cfg eng steps w))) =
           Inr ([(''total_submissions'',
                  RInt (int (length rows + count_list (fst (submit_all cfg eng steps w)) (Inr submit_ok))))],
                200)"
proof -
  from submit_all_rows [OF assms(1), of cfg eng steps]
  obtain rows' where r: "feedback (stored (snd (submit_all cfg eng steps w))) = Some rows'"
    and l: "length rows' = length rows + count_list (fst (submit_all cfg eng steps w)) (Inr submit_ok)"
    by blast
  from stats_total [OF assms(1) assms(2-6)] stats_total [OF r assms(2-6)] l
  show ?thesis by simp
qed

theorem stats_counts_successful_submissions_witness:
  "feedback (stored started) = Some [] \<and>
   \<not> unauthorized sample_config admin \<and>
   fst (submit_all sample_config sample_engine [(no_faults, alice), (no_faults, bob)] started) =
     [Inr submit_ok, Inr (submit_reply False ''already_submitted'' 200)] \<and>
   fst (stats sample_config no_faults admin started) = Inr ([(''total_submissions'', RInt 0)], 200) \<and>
   fst (stats sample_config no_faults admin
          (snd (submit_all sample_config sample_engine [(no_faults, alice), (no_faults, bob)] started))) =
     Inr ([(''total_submissions'', RInt 1)], 200)"
proof -
  have u: "\<not> unauthorized sample_config admin"
    by (simp add: unauthorized_def secret_truthy_def sample_defs)
  have f: "feedback (stored started) = Some []"
    by (simp add: started_eq)
  have a: "fst (submit sample_config sample_engine no_faults alice started) = Inr submit_ok"
    by (simp add: started_eq handler_defs prim_defs sample_defs)
  have b: "fst (submit sample_config sample_engine no_faults bob after_alice) =
     Inr (submit_reply False ''already_submitted'' 200)"
    by (simp add: after_alice_eq handler_defs prim_defs sample_defs)
  have "fst (submit_all sample_config sample_engine [(no_faults, alice), (no_faults, bob)] started) =
     [fst (submit sample_config sample_engine no_faults alice started),
      fst (submit sample_config sample_engine no_faults bob after_alice)]"
    by (simp add: split_beta after_alice_def)
  with a b have o: "fst (submit_all sample_config sample_engine
      [(no_faults, alice), (no_faults, bob)] started) =
     [Inr submit_ok, Inr (submit_reply False ''already_submitted'' 200)]"
    by simp
  have d: "Inr (submit_reply False ''already_submitted'' 200) \<noteq> (Inr submit_ok :: exc + response)"
    by (simp add: submit_reply_def submit_ok_def)
  have n: "no_faults Op_connect = None" "no_faults Op_count = None" "no_faults Op_commit = None"
    by (simp_all add: no_faults_def)
  have c: "DATABASE_URL sample_config = Some ''postgresql://db''"
    by (simp add: sample_config_def)
  from stats_counts_successful_submissions [OF f u c n, of sample_engine
      "[(no_faults, alice), (no_faults, bob)]"] u f o d
  show ?thesis
    by simp
qed

section \<open>Start-up\<close>

text \<open>
  Claim C9. Whatever fails, the module body gets past the start-up and registers the four
  routes. A failed initialization leaves the database as it was and is logged as an
  error. A successful one leaves a table (the old rows, if it existed) and the index, and
  running it again, in any environment, changes nothing.
\<close>

theorem init_db_idempotent_and_startup_survives:
  "fst (module_body cfg env w) = Inr [Health, Api_submit, Api_stats, Api_list] \<and>
   (fst (init_db cfg env w) \<noteq> Inr () \<longrightarrow>
      stored (snd (startup cfg env w)) = stored w \<and>
      logged (snd (startup cfg env w)) = logged w @ [(ERROR, ''Database initialization failed'')]) \<and>
   (fst (init_db cfg env w) = Inr () \<longrightarrow>
      stored (snd (init_db cfg env w)) =
        \<lparr>feedback = Some (case feedback (stored w) of None \<Rightarrow> [] | Some rows \<Rightarrow> rows),
         idx_userId = True\<rparr> \<and>
      stored (snd (init_db cfg env' (snd (init_db cfg env w)))) = stored (snd (init_db cfg env w)))"
proof (intro conjI impI)
  show "fst (module_body cfg env w) = Inr [Health, Api_submit, Api_stats, Api_list]"
    using startup_never_raises [of cfg env w]
    by (cases "startup cfg env w") (simp add: module_body_def)
next
  assume "fst (init_db cfg env w) \<noteq> Inr ()"
  then obtain e w' where i: "init_db cfg env w = (Inl e, w')"
    by (cases "init_db cfg env w"; cases "fst (init_db cfg env w)") auto
  from init_db_cases [OF i] i
  show "stored (snd (startup cfg env w)) = stored w"
    and "logged (snd (startup cfg env w)) = logged w @ [(ERROR, ''Database initialization failed'')]"
    by (simp_all add: startup_def logger_def)
next
  assume ok: "fst (init_db cfg env w) = Inr ()"
  then obtain w' where i: "init_db cfg env w = (Inr (), w')"
    by (cases "init_db cfg env w") auto
  from init_db_cases [OF i] i
  show first: "stored (snd (init_db cfg env w)) =
        \<lparr>feedback = Some (case feedback (stored w) of None \<Rightarrow> [] | Some rows \<Rightarrow> rows),
         idx_userId = True\<rparr>"
    by simp
  obtain r2 w2 where j: "init_db cfg env' w' = (r2, w2)"
    by (cases "init_db cfg env' w'")
  from init_db_cases [OF j] first i j
  show "stored (snd (init_db cfg env' (snd (init_db cfg env w)))) = stored (snd (init_db cfg env w))"
    by (cases r2) auto
qed

theorem init_db_idempotent_and_startup_survives_witness:
  "fst (init_db sample_config no_faults fresh) = Inr () \<and>
   stored (snd (init_db sample_config no_faults fresh)) = \<lparr>feedback = Some [], idx_userId = True\<rparr> \<and>
   stored (snd (init_db sample_config no_faults (snd (init_db sample_config no_faults fresh)))) =
     \<lparr>feedback = Some [], idx_userId = True\<rparr> \<and>
   fst (init_db sample_config outage fresh) \<noteq> Inr () \<and>
   stored (snd (startup sample_config outage fresh)) = stored fresh \<and>
   logged (snd (startup sample_config outage fresh)) = [(ERROR, ''Database initialization failed'')] \<and>
   fst (module_body sample_config outage fresh) = Inr [Health, Api_submit, Api_stats, Api_list]"
proof -
  have a: "fst (init_db sample_config no_faults fresh) = Inr ()"
    by (simp add: handler_defs prim_defs sample_defs)
  have b: "fst (init_db sample_config outage fresh) \<noteq> Inr ()"
    by (simp add: handler_defs prim_defs sample_defs)
  from init_db_idempotent_and_startup_survives [of sample_config no_faults fresh no_faults]
    init_db_idempotent_and_startup_survives [of sample_config outage fresh no_faults] a b
  show ?thesis
    by (simp add: fresh_def)
qed

end
